theory Spec2Isabelle
  imports Main
begin

section \<open>The headless bridge of NonameEnv (noname\_env.py)\<close>

text \<open>
  The class \<open>NonameEnv\<close> drives a worker process over its standard streams. The model
  below follows the Python method by method. The object \<open>self\<close> is the record \<open>env\<close>;
  everything outside the interpreter (process launch, the pipes, the two reader threads
  and the queue they fill) is the record \<open>world\<close>, which holds the outcomes the
  operating system will give to each call (its oracle fields) and a log of what the
  bridge did (its log fields). Every method is a function from \<open>env \<times> world\<close> to a
  result or an error together with the state it leaves behind, so that a raised
  exception is a value and the state at the moment of the raise is visible.
\<close>

subsection \<open>Module constants (lines 22--26)\<close>

definition PMAX :: nat where "PMAX = 8"
definition HMAX :: nat where "HMAX = 20"
definition BMAX :: nat where "BMAX = 30"
definition ACTION_DIM :: nat where "ACTION_DIM = HMAX + PMAX + BMAX + 2"
definition OBS_DIM :: nat where "OBS_DIM = PMAX * 5 + HMAX * 3 + 2"

subsection \<open>Values returned by \<open>json.loads\<close>\<close>

text \<open>
  \<open>'n\<close> is the type of Python numbers (the \<open>int\<close> and \<open>float\<close> objects that JSON
  numbers parse to). A dictionary is an association list read with \<open>map_of\<close>.
\<close>

datatype 'n json =
    JNull
  | JBool bool
  | JNum 'n
  | JStr string
  | JArr "'n json list"
  | JObj "(string \<times> 'n json) list"

text \<open>Python's \<open>bool(v)\<close> on such a value.\<close>

fun truthy :: "'n::zero json \<Rightarrow> bool" where
  "truthy JNull = False"
| "truthy (JBool b) = b"
| "truthy (JNum n) = (n \<noteq> 0)"
| "truthy (JStr s) = (s \<noteq> [])"
| "truthy (JArr xs) = (xs \<noteq> [])"
| "truthy (JObj kv) = (kv \<noteq> [])"

text \<open>\<open>d.get(k, default)\<close> on a dictionary.\<close>

definition dict_get :: "(string \<times> 'n json) list \<Rightarrow> string \<Rightarrow> 'n json \<Rightarrow> 'n json" where
  "dict_get kv k dflt = (case map_of kv k of None \<Rightarrow> dflt | Some v \<Rightarrow> v)"

subsection \<open>NumPy arrays\<close>

text \<open>
  An array is its shape and its elements in row-major order. \<open>np.asarray(v, dtype=t)\<close>
  on a parsed JSON value takes every nested list as one more dimension, needs all
  elements of a list to have the same shape, and converts each leaf (a value that is not
  a list) to \<open>t\<close>. The conversion of one leaf is library code and is a parameter here:
  \<open>conv x = None\<close> when NumPy raises on \<open>x\<close>.
\<close>

record 'e ndarray =
  shape :: "nat list"
  data :: "'e list"

fun np_shape :: "'n json \<Rightarrow> nat list option" where
  "np_shape (JArr []) = Some [0]"
| "np_shape (JArr (x # xs)) =
     (case np_shape x of
        None \<Rightarrow> None
      | Some s \<Rightarrow> if list_all (\<lambda>y. np_shape y = Some s) xs
                  then Some (Suc (length xs) # s) else None)"
| "np_shape _ = Some []"

fun leaves :: "'n json \<Rightarrow> 'n json list" where
  "leaves (JArr xs) = concat (map leaves xs)"
| "leaves v = [v]"

fun those_list :: "'a option list \<Rightarrow> 'a list option" where
  "those_list [] = Some []"
| "those_list (None # _) = None"
| "those_list (Some x # xs) = (case those_list xs of None \<Rightarrow> None | Some ys \<Rightarrow> Some (x # ys))"

definition asarray :: "('n json \<Rightarrow> 'e option) \<Rightarrow> 'n json \<Rightarrow> 'e ndarray option" where
  "asarray conv v =
     (case np_shape v of
        None \<Rightarrow> None
      | Some s \<Rightarrow>
          (case those_list (map conv (leaves v)) of
             None \<Rightarrow> None
           | Some ds \<Rightarrow> Some \<lparr>shape = s, data = ds\<rparr>))"

text \<open>\<open>a.size\<close>, \<open>np.zeros((n,), dtype=t)\<close> with \<open>z\<close> the zero of \<open>t\<close>, and \<open>a.reshape(-1)\<close>.\<close>

definition np_size :: "'e ndarray \<Rightarrow> nat" where
  "np_size a = prod_list (shape a)"

definition zeros :: "nat \<Rightarrow> 'e \<Rightarrow> 'e ndarray" where
  "zeros n z = \<lparr>shape = [n], data = replicate n z\<rparr>"

definition reshape_flat :: "'e ndarray \<Rightarrow> 'e list" where
  "reshape_flat a = data a"

text \<open>
  Lines 164--169 and 171--176 of \<open>_decode_step\<close> are the same statements at two element
  types: an array whose shape is not \<open>(N,)\<close> is replaced by a zero array of shape \<open>(N,)\<close>
  whose first \<open>n = min(N, size)\<close> elements are overwritten, when \<open>n > 0\<close>, by the first
  \<open>n\<close> elements of the flattened array.
\<close>

definition fix_shape :: "nat \<Rightarrow> 'e \<Rightarrow> 'e ndarray \<Rightarrow> 'e ndarray" where
  "fix_shape N z a =
     (if shape a \<noteq> [N] then
        (let fixed = zeros N z;
             n = min N (np_size a)
         in if n > 0
            then fixed\<lparr>data := take n (reshape_flat a) @ drop n (data fixed)\<rparr>
            else fixed)
      else a)"

subsection \<open>Library conversions taken as parameters\<close>

text \<open>
  \<open>as_float32\<close> and \<open>as_bool\<close> are NumPy's conversions of one leaf to \<open>float32\<close> (type
  \<open>'f\<close>) and to \<open>bool_\<close>; \<open>py_float\<close> is Python's \<open>float(v)\<close>. Each is \<open>None\<close> where
  the library raises.
\<close>

record ('n, 'f) coercions =
  as_float32 :: "'n json \<Rightarrow> 'f option"
  as_bool :: "'n json \<Rightarrow> bool option"
  py_float :: "'n json \<Rightarrow> 'n option"

subsection \<open>Errors\<close>

text \<open>
  One constructor for each way a method can raise. The Python raises \<open>RuntimeError\<close>
  with distinct messages and \<open>ValueError\<close>; the constructors carry the names the
  specification gives them.
  \<^item> \<open>NotRunning m\<close>: \<open>RuntimeError(m)\<close> of lines 144, 150 (\<open>Node process is not running\<close>)
    and 199, 217 (\<open>Environment is closed; call reset() first\<close>);
  \<^item> \<open>Timeout tail\<close>: line 155, with the stderr tail;
  \<^item> \<open>ProtocolError line tail\<close>: line 160, with the raw line and the stderr tail;
  \<^item> \<open>InvalidAction a\<close>: the \<open>ValueError\<close> of line 202;
  \<^item> \<open>SnapshotUnavailable msg\<close>: line 222, with the whole response;
  \<^item> \<open>LaunchUnavailable\<close>: the \<open>RuntimeError\<close>s of \<open>_build_cmd\<close>;
  \<^item> \<open>SpawnFailed\<close>, \<open>WriteFailed\<close>, \<open>TeardownFailed\<close>: \<open>OSError\<close> out of \<open>Popen\<close>, of
    \<open>stdin.write\<close>/\<open>flush\<close>, and of \<open>poll\<close>/\<open>kill\<close>;
  \<^item> \<open>AttributeError\<close>: \<open>.get\<close> on a response that is not a dictionary;
  \<^item> \<open>ConversionError\<close>: \<open>np.asarray\<close> or \<open>float\<close> raising on a field.
\<close>

datatype 'n error =
    NotRunning string
  | Timeout "string list"
  | ProtocolError string "string list"
  | InvalidAction int
  | SnapshotUnavailable "'n json"
  | LaunchUnavailable
  | SpawnFailed
  | WriteFailed
  | TeardownFailed
  | AttributeError
  | ConversionError

definition msg_node_not_running :: string where
  "msg_node_not_running = ''Node process is not running''"

definition msg_env_closed :: string where
  "msg_env_closed = ''Environment is closed; call reset() first''"

subsection \<open>The object and the world\<close>

text \<open>
  \<open>env\<close> holds the attributes of \<open>self\<close> that the methods read or write. A process
  handle is the number of the launch that created it. \<open>_stdout_queue\<close> is filled by the
  reader thread from what the worker prints, so what \<open>get\<close> returns is the world's.
\<close>

record env =
  mode :: string
  single_mode :: string
  seat :: int
  base_seed :: int
  proc :: "nat option"
  stderr_thread :: "nat option"
  stdout_thread :: "nat option"
  stderr_stop :: bool
  stdout_stop :: bool
  stderr_tail :: "string list"
  last_mask :: "bool ndarray"
  episode_seed :: int

datatype command =
    Hello int string string int
  | Step int
  | Snapshot

datatype launch_outcome = Launched | NoLauncher | PopenRaises

datatype poll_outcome = StillRunning | HasExited | PollRaises

text \<open>
  What one call of \<open>_stdout_queue.get(timeout)\<close> gives: nothing before the deadline, or
  a line, given with what \<open>json.loads\<close> makes of it (\<open>None\<close> when it raises). \<open>diag\<close> are
  the lines the stderr reader has appended to the tail meanwhile.
\<close>

datatype 'n got = QueueEmpty | Line string "'n json option"

record 'n reply =
  diag :: "string list"
  got :: "'n got"

record 'n world =
  launch_of :: "nat \<Rightarrow> launch_outcome"
  write_ok :: "nat \<Rightarrow> bool"
  poll_of :: "nat \<Rightarrow> poll_outcome"
  kill_ok :: "nat \<Rightarrow> bool"
  inbox :: "'n reply list"
  launches :: nat
  writes :: nat
  spawned :: "nat list"
  sent :: "(nat \<times> command) list"
  killed :: "nat list"

type_synonym ('n, 'a) io = "env \<times> 'n world \<Rightarrow> ('n error + 'a) \<times> (env \<times> 'n world)"

definition return_io :: "'a \<Rightarrow> ('n, 'a) io" where
  "return_io x s = (Inr x, s)"

definition raise_io :: "'n error \<Rightarrow> ('n, 'a) io" where
  "raise_io err s = (Inl err, s)"

definition bind_io :: "('n, 'a) io \<Rightarrow> ('a \<Rightarrow> ('n, 'b) io) \<Rightarrow> ('n, 'b) io" where
  "bind_io m f s = (case m s of (Inl err, s') \<Rightarrow> (Inl err, s') | (Inr x, s') \<Rightarrow> f x s')"

text \<open>\<open>try: m except Exception: pass\<close>.\<close>

definition swallow_io :: "('n, unit) io \<Rightarrow> ('n, unit) io" where
  "swallow_io m s = (case m s of (_, s') \<Rightarrow> (Inr (), s'))"

definition modify_env :: "(env \<Rightarrow> env) \<Rightarrow> ('n, unit) io" where
  "modify_env f s = (Inr (), (f (fst s), snd s))"

definition get_env :: "(env \<Rightarrow> 'a) \<Rightarrow> ('n, 'a) io" where
  "get_env f s = (Inr (f (fst s)), s)"

subsection \<open>\<open>__init__\<close> (lines 32--63)\<close>

definition init_env :: "string \<Rightarrow> string \<Rightarrow> int \<Rightarrow> int \<Rightarrow> env" where
  "init_env md sm st sd =
     \<lparr>mode = md, single_mode = sm, seat = st, base_seed = sd,
      proc = None, stderr_thread = None, stdout_thread = None,
      stderr_stop = False, stdout_stop = False, stderr_tail = [],
      last_mask = zeros ACTION_DIM False, episode_seed = sd\<rparr>"

subsection \<open>\<open>_write_json\<close> (lines 142--146)\<close>

definition write_json :: "command \<Rightarrow> ('n, unit) io" where
  "write_json msg s =
     (case s of (e, w) \<Rightarrow>
        (case proc e of
           None \<Rightarrow> (Inl (NotRunning msg_node_not_running), s)
         | Some p \<Rightarrow>
             if write_ok w (writes w)
             then (Inr (), (e, w\<lparr>writes := Suc (writes w), sent := sent w @ [(p, msg)]\<rparr>))
             else (Inl WriteFailed, (e, w\<lparr>writes := Suc (writes w)\<rparr>))))"

subsection \<open>\<open>_read_json\<close> (lines 148--160)\<close>

text \<open>\<open>deque(maxlen=120).append\<close>: the oldest line leaves when the tail is full.\<close>

definition tail_append :: "string list \<Rightarrow> string \<Rightarrow> string list" where
  "tail_append t l = (let t' = t @ [l] in if length t' > 120 then tl t' else t')"

definition read_json :: "('n, 'n json) io" where
  "read_json s =
     (case s of (e, w) \<Rightarrow>
        (case proc e of
           None \<Rightarrow> (Inl (NotRunning msg_node_not_running), s)
         | Some p \<Rightarrow>
             (case inbox w of
                [] \<Rightarrow> (Inl (Timeout (stderr_tail e)), s)
              | r # rs \<Rightarrow>
                  (let e' = e\<lparr>stderr_tail := foldl tail_append (stderr_tail e) (diag r)\<rparr>;
                       s' = (e', w\<lparr>inbox := rs\<rparr>)
                   in case got r of
                        QueueEmpty \<Rightarrow> (Inl (Timeout (stderr_tail e')), s')
                      | Line raw parsed \<Rightarrow>
                          (case parsed of
                             None \<Rightarrow> (Inl (ProtocolError raw (stderr_tail e')), s')
                           | Some v \<Rightarrow> (Inr v, s'))))))"

subsection \<open>\<open>_start\<close> (lines 112--140), with \<open>_build_cmd\<close> and \<open>Popen\<close> as one launch\<close>

definition start :: "int \<Rightarrow> ('n, unit) io" where
  "start seed s =
     (case s of (e, w) \<Rightarrow>
        (let p = launches w;
             w1 = w\<lparr>launches := Suc p\<rparr>
         in case launch_of w p of
              NoLauncher \<Rightarrow> (Inl LaunchUnavailable, (e, w1))
            | PopenRaises \<Rightarrow> (Inl SpawnFailed, (e, w1))
            | Launched \<Rightarrow>
                write_json (Hello seed (mode e) (single_mode e) (seat e))
                  (e\<lparr>proc := Some p, stderr_stop := False, stdout_stop := False,
                     stderr_tail := [], stderr_thread := Some p, stdout_thread := Some p\<rparr>,
                   w1\<lparr>spawned := spawned w1 @ [p]\<rparr>)))"

subsection \<open>\<open>close\<close> (lines 225--237)\<close>

text \<open>The body of the \<open>try\<close>, lines 228--229.\<close>

definition poll_kill :: "nat \<Rightarrow> ('n, unit) io" where
  "poll_kill p s =
     (case s of (e, w) \<Rightarrow>
        (case poll_of w p of
           PollRaises \<Rightarrow> (Inl TeardownFailed, s)
         | HasExited \<Rightarrow> (Inr (), s)
         | StillRunning \<Rightarrow>
             (if kill_ok w p then Inr () else Inl TeardownFailed,
              (e, w\<lparr>killed := killed w @ [p]\<rparr>))))"

definition close :: "('n, unit) io" where
  "close =
     bind_io (get_env proc) (\<lambda>pr.
     bind_io (case pr of
                None \<Rightarrow> return_io ()
              | Some p \<Rightarrow>
                  bind_io (swallow_io (poll_kill p)) (\<lambda>_.
                  modify_env (\<lambda>e. e\<lparr>proc := None\<rparr>))) (\<lambda>_.
     modify_env (\<lambda>e. e\<lparr>stderr_stop := True, stdout_stop := True,
                        stderr_thread := None, stdout_thread := None\<rparr>)))"

subsection \<open>\<open>_decode_step\<close> (lines 162--180)\<close>

text \<open>
  \<open>float(msg.get("reward", 0.0))\<close> is \<open>0.0\<close> itself when the key is absent, and
  \<open>bool(msg.get("done", False))\<close> is \<open>False\<close>. The mask is stored before the reward is
  converted, so a reward that does not convert leaves the new mask behind.
\<close>

definition decode_step ::
  "('n::zero, 'f::zero) coercions \<Rightarrow> 'n json \<Rightarrow> ('n, 'f ndarray \<times> 'n \<times> bool) io" where
  "decode_step L msg =
     (case msg of
        JObj kv \<Rightarrow>
          (case asarray (as_float32 L) (dict_get kv ''obs'' (JArr [])) of
             None \<Rightarrow> raise_io ConversionError
           | Some obs0 \<Rightarrow>
               (let obs = fix_shape OBS_DIM 0 obs0
                in case asarray (as_bool L) (dict_get kv ''mask'' (JArr [])) of
                     None \<Rightarrow> raise_io ConversionError
                   | Some mask0 \<Rightarrow>
                       (let mask = fix_shape ACTION_DIM False mask0
                        in bind_io (modify_env (\<lambda>e. e\<lparr>last_mask := mask\<rparr>)) (\<lambda>_.
                           case (case map_of kv ''reward'' of
                                   None \<Rightarrow> Some 0
                                 | Some v \<Rightarrow> py_float L v) of
                             None \<Rightarrow> raise_io ConversionError
                           | Some reward \<Rightarrow>
                               return_io
                                 (obs, reward,
                                  (case map_of kv ''done'' of
                                     None \<Rightarrow> False
                                   | Some v \<Rightarrow> truthy v))))))
      | _ \<Rightarrow> raise_io AttributeError)"

subsection \<open>\<open>reset\<close> (lines 182--195)\<close>

definition reset ::
  "('n::zero, 'f::zero) coercions \<Rightarrow> int option \<Rightarrow> ('n, 'f ndarray \<times> bool ndarray) io" where
  "reset L seed =
     bind_io close (\<lambda>_.
     bind_io (modify_env (\<lambda>e. e\<lparr>episode_seed :=
                (case seed of None \<Rightarrow> base_seed e | Some sd \<Rightarrow> sd)\<rparr>)) (\<lambda>_.
     bind_io (get_env episode_seed) (\<lambda>sd.
     bind_io (start sd) (\<lambda>_.
     bind_io read_json (\<lambda>msg.
     bind_io (decode_step L msg) (\<lambda>(obs, _, done).
     bind_io (get_env last_mask) (\<lambda>info.
     if done then
       bind_io (modify_env (\<lambda>e. e\<lparr>episode_seed := episode_seed e + 1\<rparr>)) (\<lambda>_.
       bind_io close (\<lambda>_.
       bind_io (get_env episode_seed) (\<lambda>sd'.
       bind_io (start sd') (\<lambda>_.
       bind_io read_json (\<lambda>msg'.
       bind_io (decode_step L msg') (\<lambda>(obs', _, _).
       bind_io (get_env last_mask) (\<lambda>info'.
       return_io (obs', info'))))))))
     else return_io (obs, info))))))))"

subsection \<open>\<open>step\<close> (lines 197--210)\<close>

definition step ::
  "('n::zero, 'f::zero) coercions \<Rightarrow> int \<Rightarrow>
     ('n, 'f ndarray \<times> 'n \<times> bool \<times> bool \<times> bool ndarray) io" where
  "step L action =
     bind_io (get_env proc) (\<lambda>pr.
     if pr = None then raise_io (NotRunning msg_env_closed)
     else if action < 0 \<or> action \<ge> int ACTION_DIM then raise_io (InvalidAction action)
     else
       bind_io (write_json (Step action)) (\<lambda>_.
       bind_io read_json (\<lambda>msg.
       bind_io (decode_step L msg) (\<lambda>(obs, reward, done).
       bind_io (get_env last_mask) (\<lambda>info.
       bind_io (if done then close else return_io ()) (\<lambda>_.
       return_io (obs, reward, done, False, info)))))))"

subsection \<open>\<open>action_masks\<close> (lines 212--213)\<close>

definition action_masks :: "env \<Rightarrow> bool ndarray" where
  "action_masks e = last_mask e"

subsection \<open>\<open>get_snapshot\<close> (lines 215--223)\<close>

definition get_snapshot :: "('n, (string \<times> 'n json) list) io" where
  "get_snapshot =
     bind_io (get_env proc) (\<lambda>pr.
     if pr = None then raise_io (NotRunning msg_env_closed)
     else
       bind_io (write_json Snapshot) (\<lambda>_.
       bind_io read_json (\<lambda>msg.
       case msg of
         JObj kv \<Rightarrow>
           (case map_of kv ''snapshot'' of
              Some (JObj snap) \<Rightarrow> return_io snap
            | _ \<Rightarrow> raise_io (SnapshotUnavailable msg))
       | _ \<Rightarrow> raise_io AttributeError)))"

subsection \<open>Notions used to state the properties\<close>


text \<open>
  What \<open>close\<close> adds to the log of \<open>kill()\<close> calls for the handle it finds: the handle
  itself when \<open>poll()\<close> reports the process as still running, nothing otherwise.
\<close>

definition kill_trace :: "'n world \<Rightarrow> nat option \<Rightarrow> nat list" where
  "kill_trace w pr =
     (case pr of
        None \<Rightarrow> []
      | Some p \<Rightarrow> (case poll_of w p of StillRunning \<Rightarrow> [p] | _ \<Rightarrow> []))"

text \<open>A mask of the declared length.\<close>

definition mask_ok :: "bool ndarray \<Rightarrow> bool" where
  "mask_ok m = (shape m = [ACTION_DIM] \<and> length (data m) = ACTION_DIM)"

text \<open>
  \<open>keeps I m Q\<close>: from a state satisfying \<open>I\<close>, the action \<open>m\<close> ends, raising or not, in
  a state satisfying \<open>I\<close>, and a value it returns satisfies \<open>Q\<close>.
\<close>

definition keeps ::
  "(env \<times> 'n world \<Rightarrow> bool) \<Rightarrow> ('n, 'a) io \<Rightarrow> ('a \<Rightarrow> bool) \<Rightarrow> bool" where
  "keeps I m Q = (\<forall>s. I s \<longrightarrow> I (snd (m s)) \<and> (\<forall>x. fst (m s) = Inr x \<longrightarrow> Q x))"

text \<open>The stored mask has the declared length.\<close>

definition mask_inv :: "env \<times> 'n world \<Rightarrow> bool" where
  "mask_inv s = mask_ok (last_mask (fst s))"

subsection \<open>A concrete worker for the examples\<close>

text \<open>
  Numbers are integers here; a leaf converts to \<open>float32\<close> and to \<open>float\<close> when it is
  a number or a boolean, and to \<open>bool_\<close> by its truth value.
\<close>

definition demo_coercions :: "(int, int) coercions" where
  "demo_coercions =
     \<lparr>as_float32 = (\<lambda>v. case v of JNum n \<Rightarrow> Some n
                            | JBool b \<Rightarrow> Some (if b then 1 else 0)
                            | _ \<Rightarrow> None),
      as_bool = (\<lambda>v. case v of JNum n \<Rightarrow> Some (n \<noteq> 0)
                         | JBool b \<Rightarrow> Some b
                         | _ \<Rightarrow> None),
      py_float = (\<lambda>v. case v of JNum n \<Rightarrow> Some n
                          | JBool b \<Rightarrow> Some (if b then 1 else 0)
                          | _ \<Rightarrow> None)\<rparr>"

text \<open>The response \<open>{"obs":[1,2,3],"mask":[true,false],"reward":0,"done":false}\<close>.\<close>

definition demo_kv :: "(string \<times> int json) list" where
  "demo_kv =
     [(''obs'', JArr [JNum 1, JNum 2, JNum 3]),
      (''mask'', JArr [JBool True, JBool False]),
      (''reward'', JNum 0),
      (''done'', JBool False)]"

text \<open>The response \<open>{"done":true}\<close>.\<close>

definition done_kv :: "(string \<times> int json) list" where
  "done_kv = [(''done'', JBool True)]"



definition line_of :: "string \<Rightarrow> (string \<times> int json) list \<Rightarrow> int reply" where
  "line_of raw kv = \<lparr>diag = [], got = Line raw (Some (JObj kv))\<rparr>"

text \<open>A world where every launch, write and kill succeeds and the worker prints \<open>rs\<close>.\<close>

definition demo_world :: "int reply list \<Rightarrow> int world" where
  "demo_world rs =
     \<lparr>launch_of = (\<lambda>_. Launched), write_ok = (\<lambda>_. True),
      poll_of = (\<lambda>_. StillRunning), kill_ok = (\<lambda>_. True),
      inbox = rs, launches = 0, writes = 0, spawned = [], sent = [], killed = []\<rparr>"

definition demo_env :: env where
  "demo_env = init_env ''single'' ''normal'' 0 123"

definition running_env :: env where
  "running_env = demo_env\<lparr>proc := Some 0, stderr_thread := Some 0, stdout_thread := Some 0\<rparr>"

text \<open>Two snapshot responses: one with a mapping in the field, one with a number.\<close>

definition snap_kv :: "(string \<times> int json) list" where
  "snap_kv = [(''snapshot'', JObj [(''event'', JStr ''play''), (''mePlayerId'', JNum 0)])]"

definition bad_snap_kv :: "(string \<times> int json) list" where
  "bad_snap_kv = [(''snapshot'', JNum 1)]"

section \<open>Properties\<close>

subsection \<open>Arrays\<close>

lemma those_list_length: "those_list xs = Some ys \<Longrightarrow> length ys = length xs"
  by (induction xs arbitrary: ys rule: those_list.induct) (auto split: option.splits)


lemma np_shape_leaves: "np_shape v = Some s \<Longrightarrow> length (leaves v) = prod_list s"
proof (induction v arbitrary: s rule: np_shape.induct)
  case 1
  then show ?case by auto
next
  case (2 x xs)
  from "2.prems" obtain s0 where s0: "np_shape x = Some s0"
    and all: "list_all (\<lambda>y. np_shape y = Some s0) xs"
    and s: "s = Suc (length xs) # s0"
    by (auto split: option.splits if_splits)
  have hd: "length (leaves x) = prod_list s0" using "2.IH"(1) s0 by simp
  have "\<forall>y \<in> set xs. length (leaves y) = prod_list s0"
    using "2.IH"(2)[OF s0] all by (auto simp: list_all_iff)
  then have "length (concat (map leaves xs)) = length xs * prod_list s0"
    by (induction xs) auto
  with hd s show ?case by simp
qed simp_all

lemma asarray_wf: "asarray conv v = Some a \<Longrightarrow> length (data a) = np_size a"
  by (auto simp: asarray_def np_size_def those_list_length np_shape_leaves split: option.splits)







lemma fix_shape_shape: "shape (fix_shape N z a) = [N]"
  by (simp add: fix_shape_def zeros_def Let_def)

lemma fix_shape_data:
  assumes "length (data a) = np_size a"
  shows "data (fix_shape N z a) = take N (data a) @ replicate (N - length (data a)) z"
proof (cases "shape a = [N]")
  case True
  then have "np_size a = N" by (simp add: np_size_def)
  with assms True show ?thesis by (simp add: fix_shape_def)
next
  case False
  show ?thesis
  proof (cases "min N (np_size a) > 0")
    case True
    with False assms show ?thesis
      by (auto simp: fix_shape_def zeros_def Let_def reshape_flat_def min_def)
  next
    case none: False
    then have "N = 0 \<or> length (data a) = 0"
      using assms by (auto simp: min_def split: if_splits)
    with False none show ?thesis
      by (auto simp: fix_shape_def zeros_def Let_def)
  qed
qed

lemma fix_shape_length:
  "length (data a) = np_size a \<Longrightarrow> length (data (fix_shape N z a)) = N"
  by (simp add: fix_shape_data)

subsection \<open>Decoding\<close>

lemmas io_defs =
  bind_io_def return_io_def raise_io_def modify_env_def get_env_def swallow_io_def

lemma decode_step_InrD:
  assumes "fst (decode_step L msg s) = Inr (obs, r, d)"
  shows "\<exists>kv obs0 mask0.
           msg = JObj kv
         \<and> asarray (as_float32 L) (dict_get kv ''obs'' (JArr [])) = Some obs0
         \<and> obs = fix_shape OBS_DIM 0 obs0
         \<and> asarray (as_bool L) (dict_get kv ''mask'' (JArr [])) = Some mask0
         \<and> snd (decode_step L msg s)
             = ((fst s)\<lparr>last_mask := fix_shape ACTION_DIM False mask0\<rparr>, snd s)
         \<and> (case map_of kv ''reward'' of None \<Rightarrow> Some 0 | Some v \<Rightarrow> py_float L v) = Some r
         \<and> d = (case map_of kv ''done'' of None \<Rightarrow> False | Some v \<Rightarrow> truthy v)"
proof (cases msg)
  case (JObj kv)
  with assms show ?thesis
    by (auto simp: decode_step_def io_defs Let_def split: option.splits)
qed (use assms in \<open>auto simp: decode_step_def io_defs\<close>)

subsection \<open>Observation normalisation\<close>



subsection \<open>Mask normalisation\<close>



subsection \<open>The operations on a cooperative world\<close>

lemma close_eq:
  "close (e, w) =
     (Inr (),
      (e\<lparr>proc := None, stderr_stop := True, stdout_stop := True,
          stderr_thread := None, stdout_thread := None\<rparr>,
       w\<lparr>killed := killed w @ kill_trace w (proc e)\<rparr>))"
  by (cases "proc e")
     (auto simp: close_def io_defs poll_kill_def kill_trace_def split: poll_outcome.splits)

lemma write_json_ok:
  "proc e = Some p \<Longrightarrow> write_ok w (writes w) \<Longrightarrow>
   write_json c (e, w) = (Inr (), (e, w\<lparr>writes := Suc (writes w), sent := sent w @ [(p, c)]\<rparr>))"
  by (simp add: write_json_def)

lemma read_json_line:
  "proc e = Some p \<Longrightarrow> inbox w = r # rs \<Longrightarrow> got r = Line raw (Some m) \<Longrightarrow>
   read_json (e, w) =
     (Inr m, (e\<lparr>stderr_tail := foldl tail_append (stderr_tail e) (diag r)\<rparr>, w\<lparr>inbox := rs\<rparr>))"
  by (simp add: read_json_def Let_def)

lemma start_ok:
  "launch_of w (launches w) = Launched \<Longrightarrow> write_ok w (writes w) \<Longrightarrow>
   start sd (e, w) =
     (Inr (),
      (e\<lparr>proc := Some (launches w), stderr_stop := False, stdout_stop := False,
          stderr_tail := [], stderr_thread := Some (launches w),
          stdout_thread := Some (launches w)\<rparr>,
       w\<lparr>launches := Suc (launches w), spawned := spawned w @ [launches w],
          writes := Suc (writes w),
          sent := sent w @ [(launches w, Hello sd (mode e) (single_mode e) (seat e))]\<rparr>))"
  by (simp add: start_def write_json_def Let_def)

lemma decode_step_at:
  assumes "fst (decode_step L m s0) = Inr x"
  shows "decode_step L m (e, w) =
           (Inr x, (e\<lparr>last_mask := last_mask (fst (snd (decode_step L m s0)))\<rparr>, w))"
proof -
  obtain obs r d where x: "x = (obs, r, d)" by (cases x)
  from decode_step_InrD[OF assms[unfolded x]] obtain kv obs0 mask0 where
    *: "m = JObj kv"
       "asarray (as_float32 L) (dict_get kv ''obs'' (JArr [])) = Some obs0"
       "obs = fix_shape OBS_DIM 0 obs0"
       "asarray (as_bool L) (dict_get kv ''mask'' (JArr [])) = Some mask0"
       "snd (decode_step L m s0) = ((fst s0)\<lparr>last_mask := fix_shape ACTION_DIM False mask0\<rparr>, snd s0)"
       "(case map_of kv ''reward'' of None \<Rightarrow> Some 0 | Some v \<Rightarrow> py_float L v) = Some r"
       "d = (case map_of kv ''done'' of None \<Rightarrow> False | Some v \<Rightarrow> truthy v)"
    by blast
  show ?thesis
    unfolding x *(5) using *(1,2,3,4,6,7)
    by (simp add: decode_step_def io_defs Let_def)
qed

subsection \<open>\<open>close\<close>\<close>

text \<open>
  C8. From every state, \<open>close\<close> returns without raising, also when \<open>poll\<close> or \<open>kill\<close>
  raises, and leaves no process handle; a second \<open>close\<close> right after it returns as
  well and changes neither the object nor the world.
\<close>

theorem C8_close_idempotent:
  "fst (close s) = Inr ()
   \<and> proc (fst (snd (close s))) = None
   \<and> close (snd (close s)) = (Inr (), snd (close s))"
proof -
  obtain e w where s: "s = (e, w)" by (cases s)
  show ?thesis unfolding s by (simp add: close_eq kill_trace_def)
qed

subsection \<open>\<open>step\<close>\<close>

text \<open>
  C4. When a process handle is present and the action is below \<open>0\<close> or at least
  \<open>ACTION_DIM\<close>, \<open>step\<close> raises the out-of-range error and leaves the object and the
  world as they were: nothing is written to the worker.
\<close>

theorem C4_step_invalid_action:
  assumes "proc e \<noteq> None" and "action < 0 \<or> action \<ge> int ACTION_DIM"
  shows "step L action (e, w) = (Inl (InvalidAction action), (e, w))"
  using assms by (auto simp: step_def io_defs)

theorem C4_step_invalid_action_witness:
  "proc running_env \<noteq> None \<and> ((60::int) < 0 \<or> 60 \<ge> int ACTION_DIM)
   \<and> step demo_coercions 60 (running_env, demo_world [])
       = (Inl (InvalidAction 60), (running_env, demo_world []))
   \<and> ((-1::int) < 0 \<or> -1 \<ge> int ACTION_DIM)
   \<and> step demo_coercions (-1) (running_env, demo_world [])
       = (Inl (InvalidAction (-1)), (running_env, demo_world []))
   \<and> sent (demo_world []) = []"
proof -
  have h1: "proc running_env \<noteq> None" by (simp add: running_env_def)
  have h2: "(60::int) < 0 \<or> 60 \<ge> int ACTION_DIM"
    by (simp add: ACTION_DIM_def PMAX_def HMAX_def BMAX_def)
  have h3: "(-1::int) < 0 \<or> -1 \<ge> int ACTION_DIM" by simp
  show ?thesis
    using C4_step_invalid_action[OF h1 h2, of demo_coercions "demo_world []"]
          C4_step_invalid_action[OF h1 h3, of demo_coercions "demo_world []"] h1 h2
    by (simp add: demo_world_def)
qed

text \<open>
  C5. Let \<open>step\<close> be called with a valid action on a running worker, the write succeed
  and the next line decode to a response with \<open>done\<close> true. Then \<open>step\<close> returns that
  response's observation and reward with \<open>terminated = True\<close>, \<open>truncated = False\<close> and
  the new mask; the step command was written to the worker; the handle is gone and the
  worker, if still running, was killed; and from the state reached every \<open>step\<close>, with
  any action and whatever the world does, raises \<open>Environment is closed; call reset()
  first\<close> and leaves the state as it is, so that only \<open>reset\<close> ends this.
\<close>

theorem C5_step_done_closes:
  assumes p: "proc e = Some p"
      and a: "0 \<le> action" "action < int ACTION_DIM"
      and wr: "write_ok w (writes w)"
      and ib: "inbox w = r # rs"
      and g: "got r = Line raw (Some m)"
      and d: "fst (decode_step L m s0) = Inr (obs, reward, True)"
      and st: "step L action (e, w) = (res, (e', w'))"
  shows "res = Inr (obs, reward, True, False, last_mask e')
       \<and> last_mask e' = last_mask (fst (snd (decode_step L m s0)))
       \<and> sent w' = sent w @ [(p, Step action)]
       \<and> proc e' = None
       \<and> killed w' = killed w @ kill_trace w (Some p)
       \<and> (\<forall>action2 w2. step L action2 (e', w2) = (Inl (NotRunning msg_env_closed), (e', w2)))"
proof -
  have "step L action (e, w) =
          (Inr (obs, reward, True, False, last_mask (fst (snd (decode_step L m s0)))),
           (e\<lparr>stderr_tail := foldl tail_append (stderr_tail e) (diag r),
               last_mask := last_mask (fst (snd (decode_step L m s0))),
               proc := None, stderr_stop := True, stdout_stop := True,
               stderr_thread := None, stdout_thread := None\<rparr>,
            w\<lparr>writes := Suc (writes w), sent := sent w @ [(p, Step action)],
               inbox := rs, killed := killed w @ kill_trace w (Some p)\<rparr>))"
    using p a wr ib g
    by (simp add: step_def io_defs write_json_ok read_json_line decode_step_at[OF d] close_eq
                  kill_trace_def)
  with st have res: "res = Inr (obs, reward, True, False, last_mask (fst (snd (decode_step L m s0))))"
    and e': "e' = e\<lparr>stderr_tail := foldl tail_append (stderr_tail e) (diag r),
               last_mask := last_mask (fst (snd (decode_step L m s0))),
               proc := None, stderr_stop := True, stdout_stop := True,
               stderr_thread := None, stdout_thread := None\<rparr>"
    and w': "w' = w\<lparr>writes := Suc (writes w), sent := sent w @ [(p, Step action)],
               inbox := rs, killed := killed w @ kill_trace w (Some p)\<rparr>"
    by simp_all
  have closed: "proc e' = None" by (simp add: e')
  have again: "\<forall>action2 w2. step L action2 (e', w2) = (Inl (NotRunning msg_env_closed), (e', w2))"
    using closed by (simp add: step_def io_defs)
  from res again closed show ?thesis by (simp add: e' w')
qed

theorem C5_step_done_closes_witness:
  "proc running_env = Some 0
   \<and> (0::int) \<le> 5 \<and> 5 < int ACTION_DIM
   \<and> write_ok (demo_world [line_of ''done'' done_kv]) (writes (demo_world [line_of ''done'' done_kv]))
   \<and> inbox (demo_world [line_of ''done'' done_kv]) = [line_of ''done'' done_kv]
   \<and> got (line_of ''done'' done_kv) = Line ''done'' (Some (JObj done_kv))
   \<and> fst (decode_step demo_coercions (JObj done_kv) (demo_env, demo_world []))
       = Inr (zeros 102 0, 0, True)
   \<and> fst (step demo_coercions 5 (running_env, demo_world [line_of ''done'' done_kv]))
       = Inr (zeros 102 0, 0, True, False, zeros 60 False)
   \<and> proc (fst (snd (step demo_coercions 5 (running_env, demo_world [line_of ''done'' done_kv]))))
       = None
   \<and> killed (snd (snd (step demo_coercions 5 (running_env, demo_world [line_of ''done'' done_kv]))))
       = [0]
   \<and> fst (step demo_coercions 7
            (snd (step demo_coercions 5 (running_env, demo_world [line_of ''done'' done_kv]))))
       = Inl (NotRunning msg_env_closed)"
proof -
  let ?w = "demo_world [line_of ''done'' done_kv]"
  let ?r = "step demo_coercions 5 (running_env, ?w)"
  have h1: "proc running_env = Some 0" by (simp add: running_env_def)
  have h2: "(0::int) \<le> 5" by simp
  have h3: "5 < int ACTION_DIM" by (simp add: ACTION_DIM_def PMAX_def HMAX_def BMAX_def)
  have h4: "write_ok ?w (writes ?w)" by (simp add: demo_world_def)
  have h5: "inbox ?w = line_of ''done'' done_kv # []" by (simp add: demo_world_def)
  have h6: "got (line_of ''done'' done_kv) = Line ''done'' (Some (JObj done_kv))"
    by (simp add: line_of_def)
  have h7: "fst (decode_step demo_coercions (JObj done_kv) (demo_env, demo_world []))
       = Inr (zeros 102 0, 0, True)" by code_simp
  have h8: "?r = (fst ?r, (fst (snd ?r), snd (snd ?r)))" by simp
  have m: "last_mask (fst (snd (decode_step demo_coercions (JObj done_kv) (demo_env, demo_world []))))
       = zeros 60 False" by code_simp
  have k: "kill_trace ?w (Some 0) = [0]" by (simp add: kill_trace_def demo_world_def)
  have k0: "killed ?w = []" by (simp add: demo_world_def)
  note t = C5_step_done_closes[OF h1 h2 h3 h4 h5 h6 h7 h8]
  have again: "step demo_coercions 7 (snd ?r) = (Inl (NotRunning msg_env_closed), snd ?r)"
    using t by (metis prod.collapse)
  show ?thesis using t h1 h3 h4 h5 h6 h7 m k k0 again by simp
qed

subsection \<open>\<open>get_snapshot\<close>\<close>

text \<open>
  C7. Let \<open>get_snapshot\<close> be called on a running worker, the write succeed and the next
  line parse to a dictionary. The snapshot command was written to the worker. When the
  dictionary has no \<open>snapshot\<close> key, or has one whose value is not a dictionary, the
  call raises the snapshot-unavailable error carrying the whole response; when the value
  is a dictionary, the call returns that dictionary.
\<close>

theorem C7_snapshot_result:
  assumes p: "proc e = Some p"
      and wr: "write_ok w (writes w)"
      and ib: "inbox w = r # rs"
      and g: "got r = Line raw (Some (JObj kv))"
  shows "sent (snd (snd (get_snapshot (e, w)))) = sent w @ [(p, Snapshot)]
       \<and> (map_of kv ''snapshot'' = None
            \<longrightarrow> fst (get_snapshot (e, w)) = Inl (SnapshotUnavailable (JObj kv)))
       \<and> (\<forall>v. map_of kv ''snapshot'' = Some v \<and> (\<forall>snap. v \<noteq> JObj snap)
            \<longrightarrow> fst (get_snapshot (e, w)) = Inl (SnapshotUnavailable (JObj kv)))
       \<and> (\<forall>snap. map_of kv ''snapshot'' = Some (JObj snap)
            \<longrightarrow> fst (get_snapshot (e, w)) = Inr snap)"
proof -
  have run: "get_snapshot (e, w) =
     (case map_of kv ''snapshot'' of
        Some (JObj snap) \<Rightarrow> return_io snap
      | _ \<Rightarrow> raise_io (SnapshotUnavailable (JObj kv)))
     (e\<lparr>stderr_tail := foldl tail_append (stderr_tail e) (diag r)\<rparr>,
      w\<lparr>writes := Suc (writes w), sent := sent w @ [(p, Snapshot)], inbox := rs\<rparr>)"
    using p wr ib g
    by (simp add: get_snapshot_def bind_io_def get_env_def write_json_ok read_json_line)
  have 1: "sent (snd (snd (get_snapshot (e, w)))) = sent w @ [(p, Snapshot)]"
    unfolding run by (auto simp: io_defs split: option.splits json.splits)
  have 2: "map_of kv ''snapshot'' = None
            \<longrightarrow> fst (get_snapshot (e, w)) = Inl (SnapshotUnavailable (JObj kv))"
    unfolding run by (simp add: io_defs)
  have 3: "\<forall>v. map_of kv ''snapshot'' = Some v \<and> (\<forall>snap. v \<noteq> JObj snap)
            \<longrightarrow> fst (get_snapshot (e, w)) = Inl (SnapshotUnavailable (JObj kv))"
    unfolding run by (auto simp: io_defs split: json.splits)
  have 4: "\<forall>snap. map_of kv ''snapshot'' = Some (JObj snap)
            \<longrightarrow> fst (get_snapshot (e, w)) = Inr snap"
    unfolding run by (simp add: io_defs)
  from 1 2 3 4 show ?thesis by blast
qed

theorem C7_snapshot_result_witness:
  "proc running_env = Some 0
   \<and> write_ok (demo_world [line_of ''a'' demo_kv]) (writes (demo_world [line_of ''a'' demo_kv]))
   \<and> map_of demo_kv ''snapshot'' = None
   \<and> fst (get_snapshot (running_env, demo_world [line_of ''a'' demo_kv]))
       = Inl (SnapshotUnavailable (JObj demo_kv))
   \<and> sent (snd (snd (get_snapshot (running_env, demo_world [line_of ''a'' demo_kv]))))
       = [(0, Snapshot)]
   \<and> map_of bad_snap_kv ''snapshot'' = Some (JNum 1)
   \<and> fst (get_snapshot (running_env, demo_world [line_of ''b'' bad_snap_kv]))
       = Inl (SnapshotUnavailable (JObj bad_snap_kv))
   \<and> map_of snap_kv ''snapshot''
       = Some (JObj [(''event'', JStr ''play''), (''mePlayerId'', JNum 0)])
   \<and> fst (get_snapshot (running_env, demo_world [line_of ''c'' snap_kv]))
       = Inr [(''event'', JStr ''play''), (''mePlayerId'', JNum 0)]"
proof -
  have h1: "proc running_env = Some 0" by (simp add: running_env_def)
  have h2: "\<And>rs. write_ok (demo_world rs) (writes (demo_world rs))" by (simp add: demo_world_def)
  have h3: "\<And>rs. inbox (demo_world rs) = rs" by (simp add: demo_world_def)
  have h4: "\<And>raw kv. got (line_of raw kv) = Line raw (Some (JObj kv))" by (simp add: line_of_def)
  have s0: "\<And>rs. sent (demo_world rs) = []" by (simp add: demo_world_def)
  have a: "map_of demo_kv ''snapshot'' = None" by (simp add: demo_kv_def)
  have b: "map_of bad_snap_kv ''snapshot'' = Some (JNum 1)" by (simp add: bad_snap_kv_def)
  have c: "map_of snap_kv ''snapshot''
       = Some (JObj [(''event'', JStr ''play''), (''mePlayerId'', JNum 0)])"
    by (simp add: snap_kv_def)
  note ta = C7_snapshot_result[of running_env 0 "demo_world [line_of ''a'' demo_kv]"
                "line_of ''a'' demo_kv" "[]" "''a''" demo_kv, OF h1 h2]
  note tb = C7_snapshot_result[of running_env 0 "demo_world [line_of ''b'' bad_snap_kv]"
                "line_of ''b'' bad_snap_kv" "[]" "''b''" bad_snap_kv, OF h1 h2]
  note tc = C7_snapshot_result[of running_env 0 "demo_world [line_of ''c'' snap_kv]"
                "line_of ''c'' snap_kv" "[]" "''c''" snap_kv, OF h1 h2]
  show ?thesis using ta tb tc h1 h2 h3 h4 a b c s0 by simp
qed

lemma write_json_env: "fst (snd (write_json c (e, w))) = e"
  by (simp add: write_json_def split: option.splits)

lemma write_json_logs:
  "spawned (snd (snd (write_json c (e, w)))) = spawned w
   \<and> killed (snd (snd (write_json c (e, w)))) = killed w"
  by (simp add: write_json_def split: option.splits)

lemma read_json_env:
  "\<exists>t. fst (snd (read_json (e, w))) = e\<lparr>stderr_tail := t\<rparr>"
proof -
  have same: "e = e\<lparr>stderr_tail := stderr_tail e\<rparr>" by simp
  show ?thesis
    by (auto simp: read_json_def Let_def split: option.splits list.splits got.splits intro: same)
qed

lemma read_json_logs:
  "spawned (snd (snd (read_json (e, w)))) = spawned w
   \<and> killed (snd (snd (read_json (e, w)))) = killed w"
  by (simp add: read_json_def Let_def split: option.splits list.splits got.splits)

text \<open>
  C9. When \<open>get_snapshot\<close> returns a snapshot, the mask given by \<open>action_masks\<close> is the
  one from before the call, and so is every attribute of the object except the stderr
  tail, which the reader thread fills: the process handle, the seeds, the stop flags and
  the threads. No process was started or killed.
\<close>

theorem C9_snapshot_frame:
  assumes ok: "fst (get_snapshot (e, w)) = Inr snap"
      and st: "snd (get_snapshot (e, w)) = (e', w')"
  shows "action_masks e' = action_masks e
       \<and> e'\<lparr>stderr_tail := stderr_tail e\<rparr> = e
       \<and> proc e' = proc e
       \<and> episode_seed e' = episode_seed e
       \<and> spawned w' = spawned w
       \<and> killed w' = killed w"
proof -
  obtain e1 w1 where s1: "snd (write_json Snapshot (e, w)) = (e1, w1)"
    by (cases "snd (write_json Snapshot (e, w))")
  have e1: "e1 = e" using write_json_env[of Snapshot e w] s1 by simp
  have l1: "spawned w1 = spawned w \<and> killed w1 = killed w"
    using write_json_logs[of Snapshot e w] s1 by simp
  obtain e2 w2 where s2: "snd (read_json (e1, w1)) = (e2, w2)"
    by (cases "snd (read_json (e1, w1))")
  obtain t where e2: "e2 = e\<lparr>stderr_tail := t\<rparr>"
    using read_json_env[of e1 w1] s2 e1 by auto
  have l2: "spawned w2 = spawned w \<and> killed w2 = killed w"
    using read_json_logs[of e1 w1] s2 l1 by simp
  have fin: "e' = e2 \<and> w' = w2"
    using ok st s1 s2
    by (auto simp: get_snapshot_def io_defs split: prod.splits sum.splits if_splits
                   json.splits option.splits)
  show ?thesis using fin e2 l2 by (simp add: action_masks_def)
qed

theorem C9_snapshot_frame_witness:
  "fst (get_snapshot (running_env, demo_world [line_of ''c'' snap_kv]))
       = Inr [(''event'', JStr ''play''), (''mePlayerId'', JNum 0)]
   \<and> action_masks (fst (snd (get_snapshot (running_env, demo_world [line_of ''c'' snap_kv]))))
       = action_masks running_env
   \<and> proc (fst (snd (get_snapshot (running_env, demo_world [line_of ''c'' snap_kv]))))
       = Some 0"
proof -
  let ?r = "get_snapshot (running_env, demo_world [line_of ''c'' snap_kv])"
  have h1: "fst ?r = Inr [(''event'', JStr ''play''), (''mePlayerId'', JNum 0)]" by code_simp
  have h2: "snd ?r = (fst (snd ?r), snd (snd ?r))" by simp
  have p: "proc running_env = Some 0" by (simp add: running_env_def)
  show ?thesis using C9_snapshot_frame[OF h1 h2] h1 p by simp
qed

subsection \<open>\<open>reset\<close>\<close>

lemma kill_trace_upd:
  "kill_trace (w\<lparr>killed := k\<rparr>) pr = kill_trace w pr"
  "kill_trace (w\<lparr>launches := l\<rparr>) pr = kill_trace w pr"
  "kill_trace (w\<lparr>spawned := sp\<rparr>) pr = kill_trace w pr"
  "kill_trace (w\<lparr>writes := n\<rparr>) pr = kill_trace w pr"
  "kill_trace (w\<lparr>sent := sn\<rparr>) pr = kill_trace w pr"
  "kill_trace (w\<lparr>inbox := ib\<rparr>) pr = kill_trace w pr"
  by (simp_all add: kill_trace_def split: option.splits)

text \<open>
  C2. Let both launches and both hello writes succeed, and let the first line read by
  \<open>reset\<close> decode to a response with \<open>done\<close> true and the second line decode at all.
  Then \<open>reset\<close> returns the observation and mask of the second response, whatever its
  \<open>done\<close> is; it has launched exactly two workers and read exactly two lines; the two
  hello commands carry the seed and the seed plus one; the first worker was closed (and
  killed if still running) and the handle left is the second worker's; the episode seed
  is the seed plus one.
\<close>

theorem C2_reset_retries_once:
  assumes l1: "launch_of w (launches w) = Launched"
      and l2: "launch_of w (Suc (launches w)) = Launched"
      and w1: "write_ok w (writes w)"
      and w2: "write_ok w (Suc (writes w))"
      and ib: "inbox w = r1 # r2 # rs"
      and g1: "got r1 = Line raw1 (Some m1)"
      and g2: "got r2 = Line raw2 (Some m2)"
      and d1: "fst (decode_step L m1 s1) = Inr (obs1, reward1, True)"
      and d2: "fst (decode_step L m2 s2) = Inr (obs2, reward2, done2)"
      and sd: "sd = (case seed of None \<Rightarrow> base_seed e | Some x \<Rightarrow> x)"
      and rs: "reset L seed (e, w) = (res, (e', w'))"
  shows "res = Inr (obs2, last_mask (fst (snd (decode_step L m2 s2))))
       \<and> last_mask e' = last_mask (fst (snd (decode_step L m2 s2)))
       \<and> episode_seed e' = sd + 1
       \<and> proc e' = Some (Suc (launches w))
       \<and> launches w' = launches w + 2
       \<and> spawned w' = spawned w @ [launches w, Suc (launches w)]
       \<and> sent w' = sent w @ [(launches w, Hello sd (mode e) (single_mode e) (seat e)),
                              (Suc (launches w), Hello (sd + 1) (mode e) (single_mode e) (seat e))]
       \<and> killed w' = killed w @ kill_trace w (proc e) @ kill_trace w (Some (launches w))
       \<and> inbox w' = rs"
proof -
  let ?p = "launches w"
  let ?k2 = "last_mask (fst (snd (decode_step L m2 s2)))"
  have run: "reset L seed (e, w) =
     (Inr (obs2, ?k2),
      (e\<lparr>proc := Some (Suc ?p), stderr_stop := False, stdout_stop := False,
          stderr_thread := Some (Suc ?p), stdout_thread := Some (Suc ?p),
          stderr_tail := foldl tail_append [] (diag r2),
          last_mask := ?k2, episode_seed := sd + 1\<rparr>,
       w\<lparr>launches := Suc (Suc ?p),
          spawned := spawned w @ [?p, Suc ?p],
          writes := Suc (Suc (writes w)),
          sent := sent w @ [(?p, Hello sd (mode e) (single_mode e) (seat e)),
                            (Suc ?p, Hello (sd + 1) (mode e) (single_mode e) (seat e))],
          killed := killed w @ kill_trace w (proc e) @ kill_trace w (Some ?p),
          inbox := rs\<rparr>))"
    using l1 l2 w1 w2 ib g1 g2 sd
    by (cases seed)
       (simp_all add: reset_def io_defs close_eq start_ok read_json_line
                  decode_step_at[OF d1] decode_step_at[OF d2] kill_trace_upd)
  from rs[unfolded run] show ?thesis by auto
qed

theorem C2_reset_retries_once_witness:
  "launch_of (demo_world [line_of ''a'' done_kv, line_of ''b'' done_kv]) 0 = Launched
   \<and> launch_of (demo_world [line_of ''a'' done_kv, line_of ''b'' done_kv]) 1 = Launched
   \<and> write_ok (demo_world [line_of ''a'' done_kv, line_of ''b'' done_kv]) 0
   \<and> write_ok (demo_world [line_of ''a'' done_kv, line_of ''b'' done_kv]) 1
   \<and> got (line_of ''a'' done_kv) = Line ''a'' (Some (JObj done_kv))
   \<and> got (line_of ''b'' done_kv) = Line ''b'' (Some (JObj done_kv))
   \<and> fst (decode_step demo_coercions (JObj done_kv) (demo_env, demo_world []))
       = Inr (zeros 102 0, 0, True)
   \<and> fst (reset demo_coercions (Some 7)
            (demo_env, demo_world [line_of ''a'' done_kv, line_of ''b'' done_kv]))
       = Inr (zeros 102 0, zeros 60 False)
   \<and> sent (snd (snd (reset demo_coercions (Some 7)
            (demo_env, demo_world [line_of ''a'' done_kv, line_of ''b'' done_kv]))))
       = [(0, Hello 7 ''single'' ''normal'' 0), (1, Hello 8 ''single'' ''normal'' 0)]
   \<and> spawned (snd (snd (reset demo_coercions (Some 7)
            (demo_env, demo_world [line_of ''a'' done_kv, line_of ''b'' done_kv]))))
       = [0, 1]
   \<and> killed (snd (snd (reset demo_coercions (Some 7)
            (demo_env, demo_world [line_of ''a'' done_kv, line_of ''b'' done_kv]))))
       = [0]
   \<and> proc (fst (snd (reset demo_coercions (Some 7)
            (demo_env, demo_world [line_of ''a'' done_kv, line_of ''b'' done_kv]))))
       = Some 1
   \<and> episode_seed (fst (snd (reset demo_coercions (Some 7)
            (demo_env, demo_world [line_of ''a'' done_kv, line_of ''b'' done_kv]))))
       = 8"
proof -
  let ?w = "demo_world [line_of ''a'' done_kv, line_of ''b'' done_kv]"
  let ?r = "reset demo_coercions (Some 7) (demo_env, ?w)"
  have l1: "launch_of ?w (launches ?w) = Launched" by (simp add: demo_world_def)
  have l2: "launch_of ?w (Suc (launches ?w)) = Launched" by (simp add: demo_world_def)
  have w1: "write_ok ?w (writes ?w)" by (simp add: demo_world_def)
  have w2: "write_ok ?w (Suc (writes ?w))" by (simp add: demo_world_def)
  have ib: "inbox ?w = line_of ''a'' done_kv # line_of ''b'' done_kv # []"
    by (simp add: demo_world_def)
  have g1: "got (line_of ''a'' done_kv) = Line ''a'' (Some (JObj done_kv))"
    by (simp add: line_of_def)
  have g2: "got (line_of ''b'' done_kv) = Line ''b'' (Some (JObj done_kv))"
    by (simp add: line_of_def)
  have d: "fst (decode_step demo_coercions (JObj done_kv) (demo_env, demo_world []))
       = Inr (zeros 102 0, 0, True)" by code_simp
  have m: "last_mask (fst (snd (decode_step demo_coercions (JObj done_kv) (demo_env, demo_world []))))
       = zeros 60 False" by code_simp
  have sd: "(7::int) = (case Some 7 of None \<Rightarrow> base_seed demo_env | Some x \<Rightarrow> x)" by simp
  have rs: "?r = (fst ?r, (fst (snd ?r), snd (snd ?r)))" by simp
  have k: "kill_trace ?w (proc demo_env) = [] \<and> kill_trace ?w (Some 0) = [0]"
    by (simp add: kill_trace_def demo_world_def demo_env_def init_env_def)
  have c: "mode demo_env = ''single'' \<and> single_mode demo_env = ''normal'' \<and> seat demo_env = 0"
    by (simp add: demo_env_def init_env_def)
  have z: "launches ?w = 0 \<and> writes ?w = 0 \<and> sent ?w = [] \<and> spawned ?w = [] \<and> killed ?w = []"
    by (simp add: demo_world_def)
  note t = C2_reset_retries_once[OF l1 l2 w1 w2 ib g1 g2 d d sd rs]
  show ?thesis using t l1 l2 w1 w2 g1 g2 d m k c z by simp
qed

subsection \<open>Defaults of absent fields\<close>

text \<open>
  C6. In a response that is a dictionary, an absent \<open>obs\<close> or \<open>mask\<close> is decoded as the
  empty sequence and an absent \<open>done\<close> as \<open>False\<close>: \<open>_decode_step\<close> does exactly what it
  does when the field is present with that value. With \<open>reward\<close> absent it does what it
  does on any reward that \<open>float\<close> turns into \<open>0\<close>, and a reward it returns is \<open>0\<close>.
  With all four absent it returns the zero observation, reward \<open>0\<close> and \<open>done = False\<close>
  and stores the all-false mask. A line that \<open>json.loads\<close> rejects makes \<open>_read_json\<close>
  raise the invalid-JSON error carrying that line.
\<close>

theorem C6_decode_defaults:
  "(map_of kv ''obs'' = None \<longrightarrow>
      decode_step L (JObj kv) s = decode_step L (JObj (kv @ [(''obs'', JArr [])])) s)
   \<and> (map_of kv ''mask'' = None \<longrightarrow>
      decode_step L (JObj kv) s = decode_step L (JObj (kv @ [(''mask'', JArr [])])) s)
   \<and> (map_of kv ''done'' = None \<longrightarrow>
      decode_step L (JObj kv) s = decode_step L (JObj (kv @ [(''done'', JBool False)])) s)
   \<and> (map_of kv ''reward'' = None \<longrightarrow>
        (\<forall>v. py_float L v = Some 0 \<longrightarrow>
           decode_step L (JObj kv) s = decode_step L (JObj (kv @ [(''reward'', v)])) s)
      \<and> (\<forall>obs r d. fst (decode_step L (JObj kv) s) = Inr (obs, r, d) \<longrightarrow> r = 0))
   \<and> (map_of kv ''obs'' = None \<and> map_of kv ''mask'' = None
      \<and> map_of kv ''reward'' = None \<and> map_of kv ''done'' = None \<longrightarrow>
      decode_step L (JObj kv) s
        = (Inr (zeros OBS_DIM 0, 0, False), ((fst s)\<lparr>last_mask := zeros ACTION_DIM False\<rparr>, snd s)))
   \<and> (proc e = Some p \<and> inbox w = r # rs \<and> got r = Line raw None \<longrightarrow>
      fst (read_json (e, w))
        = Inl (ProtocolError raw (foldl tail_append (stderr_tail e) (diag r))))"
proof -
  have other: "\<And>k v k'. k' \<noteq> k \<Longrightarrow> map_of (kv @ [(k, v)]) k' = map_of kv k'"
    by (simp add: map_add_def split: option.splits)
  have new: "\<And>k v. map_of kv k = None \<Longrightarrow> map_of (kv @ [(k, v)]) k = Some v"
    by (simp add: map_add_def)
  have 1: "map_of kv ''obs'' = None \<longrightarrow>
      decode_step L (JObj kv) s = decode_step L (JObj (kv @ [(''obs'', JArr [])])) s"
    by (simp add: decode_step_def dict_get_def other new Let_def del: map_of_append
             cong: option.case_cong)
  have 2: "map_of kv ''mask'' = None \<longrightarrow>
      decode_step L (JObj kv) s = decode_step L (JObj (kv @ [(''mask'', JArr [])])) s"
    by (simp add: decode_step_def dict_get_def other new Let_def del: map_of_append
             cong: option.case_cong)
  have 3: "map_of kv ''done'' = None \<longrightarrow>
      decode_step L (JObj kv) s = decode_step L (JObj (kv @ [(''done'', JBool False)])) s"
    by (simp add: decode_step_def dict_get_def other new Let_def del: map_of_append
             cong: option.case_cong)
  have 4: "map_of kv ''reward'' = None \<longrightarrow>
        (\<forall>v. py_float L v = Some 0 \<longrightarrow>
           decode_step L (JObj kv) s = decode_step L (JObj (kv @ [(''reward'', v)])) s)"
    by (simp add: decode_step_def dict_get_def other new Let_def del: map_of_append
             cong: option.case_cong)
  have 5: "map_of kv ''reward'' = None \<longrightarrow>
       (\<forall>obs r d. fst (decode_step L (JObj kv) s) = Inr (obs, r, d) \<longrightarrow> r = 0)"
    by (auto dest!: decode_step_InrD)
  have e: "\<And>conv. asarray conv (JArr []) = Some \<lparr>shape = [0], data = []\<rparr>"
    by (simp add: asarray_def)
  have z: "\<And>N z. fix_shape N z \<lparr>shape = [0], data = []\<rparr> = zeros N z"
    by (auto simp: fix_shape_def zeros_def np_size_def Let_def)
  have 6: "map_of kv ''obs'' = None \<and> map_of kv ''mask'' = None
      \<and> map_of kv ''reward'' = None \<and> map_of kv ''done'' = None \<longrightarrow>
      decode_step L (JObj kv) s
        = (Inr (zeros OBS_DIM 0, 0, False), ((fst s)\<lparr>last_mask := zeros ACTION_DIM False\<rparr>, snd s))"
    by (simp add: decode_step_def dict_get_def e z io_defs)
  have 7: "proc e = Some p \<and> inbox w = r # rs \<and> got r = Line raw None \<longrightarrow>
      fst (read_json (e, w))
        = Inl (ProtocolError raw (foldl tail_append (stderr_tail e) (diag r)))"
    by (simp add: read_json_def Let_def)
  from 1 2 3 4 5 6 7 show ?thesis by blast
qed

theorem C6_decode_defaults_witness:
  "map_of done_kv ''obs'' = None \<and> map_of done_kv ''mask'' = None
   \<and> map_of done_kv ''reward'' = None
   \<and> py_float demo_coercions (JNum 0) = Some 0
   \<and> decode_step demo_coercions (JObj done_kv) (demo_env, demo_world [])
       = decode_step demo_coercions (JObj (done_kv @ [(''obs'', JArr [])])) (demo_env, demo_world [])
   \<and> decode_step demo_coercions (JObj done_kv) (demo_env, demo_world [])
       = decode_step demo_coercions (JObj (done_kv @ [(''mask'', JArr [])])) (demo_env, demo_world [])
   \<and> decode_step demo_coercions (JObj done_kv) (demo_env, demo_world [])
       = decode_step demo_coercions (JObj (done_kv @ [(''reward'', JNum 0)])) (demo_env, demo_world [])
   \<and> fst (decode_step demo_coercions (JObj done_kv) (demo_env, demo_world []))
       = Inr (zeros 102 0, 0, True)
   \<and> map_of ([] :: (string \<times> int json) list) ''done'' = None
   \<and> decode_step demo_coercions (JObj []) (demo_env, demo_world [])
       = decode_step demo_coercions (JObj ([] @ [(''done'', JBool False)])) (demo_env, demo_world [])
   \<and> decode_step demo_coercions (JObj []) (demo_env, demo_world [])
       = (Inr (zeros OBS_DIM 0, 0, False), (demo_env\<lparr>last_mask := zeros ACTION_DIM False\<rparr>, demo_world []))
   \<and> proc running_env = Some 0
   \<and> fst (read_json (running_env, demo_world [\<lparr>diag = [''oops''], got = Line ''{'' None\<rparr>]))
       = Inl (ProtocolError ''{'' [''oops''])"
proof -
  let ?s = "(demo_env, demo_world [])"
  let ?bad = "\<lparr>diag = [''oops''], got = Line ''{'' None\<rparr> :: int reply"
  have a: "map_of done_kv ''obs'' = None \<and> map_of done_kv ''mask'' = None
           \<and> map_of done_kv ''reward'' = None" by (simp add: done_kv_def)
  have f: "py_float demo_coercions (JNum 0) = Some 0" by (simp add: demo_coercions_def)
  have d: "fst (decode_step demo_coercions (JObj done_kv) ?s) = Inr (zeros 102 0, 0, True)"
    by code_simp
  have p: "proc running_env = Some 0" by (simp add: running_env_def)
  have ib: "inbox (demo_world [?bad]) = ?bad # []" by (simp add: demo_world_def)
  have tl: "foldl tail_append (stderr_tail running_env) (diag ?bad) = [''oops'']"
    by (simp add: running_env_def demo_env_def init_env_def tail_append_def)
  note t1 = C6_decode_defaults[where kv = done_kv and L = demo_coercions and s = ?s
              and e = running_env and p = 0 and w = "demo_world [?bad]" and r = ?bad
              and rs = "[]" and raw = "''{''"]
  note t2 = C6_decode_defaults[where kv = "[]" and L = demo_coercions and s = ?s
              and e = running_env and p = 0 and w = "demo_world [?bad]" and r = ?bad
              and rs = "[]" and raw = "''{''"]
  have a1: "map_of done_kv ''obs'' = None" and a2: "map_of done_kv ''mask'' = None"
    and a3: "map_of done_kv ''reward'' = None" using a by simp_all
  have n: "map_of ([] :: (string \<times> int json) list) ''done'' = None" by simp
  have n4: "map_of ([] :: (string \<times> int json) list) ''obs'' = None
            \<and> map_of ([] :: (string \<times> int json) list) ''mask'' = None
            \<and> map_of ([] :: (string \<times> int json) list) ''reward'' = None
            \<and> map_of ([] :: (string \<times> int json) list) ''done'' = None" by simp
  have bad: "proc running_env = Some 0 \<and> inbox (demo_world [?bad]) = ?bad # []
             \<and> got ?bad = Line ''{'' None" using p ib by simp
  note c1 = t1[THEN conjunct1, THEN mp, OF a1]
  note c2 = t1[THEN conjunct2, THEN conjunct1, THEN mp, OF a2]
  note c3 = t1[THEN conjunct2, THEN conjunct2, THEN conjunct2, THEN conjunct1, THEN mp, OF a3,
               THEN conjunct1, THEN spec, THEN mp, OF f]
  note c4 = t2[THEN conjunct2, THEN conjunct2, THEN conjunct1, THEN mp, OF n]
  note c5 = t2[THEN conjunct2, THEN conjunct2, THEN conjunct2, THEN conjunct2, THEN conjunct1,
               THEN mp, OF n4]
  note c6 = t1[THEN conjunct2, THEN conjunct2, THEN conjunct2, THEN conjunct2, THEN conjunct2,
               THEN mp, OF bad]
  have c5': "decode_step demo_coercions (JObj []) ?s
       = (Inr (zeros OBS_DIM 0, 0, False), (demo_env\<lparr>last_mask := zeros ACTION_DIM False\<rparr>, demo_world []))"
    using c5 by simp
  have c6': "fst (read_json (running_env, demo_world [?bad])) = Inl (ProtocolError ''{'' [''oops''])"
    using c6 tl by simp
  show ?thesis
    by (intro conjI a1 a2 a3 f c1 c2 c3 d n c4 c5' p c6')
qed

subsection \<open>The mask keeps its length\<close>

lemma keeps_bind:
  assumes "keeps I m Q" and "\<And>x. Q x \<Longrightarrow> keeps I (f x) R"
  shows "keeps I (bind_io m f) R"
  unfolding keeps_def
proof (intro allI impI)
  fix s assume s: "I s"
  obtain y s' where ms: "m s = (y, s')" by (cases "m s")
  from assms(1)[unfolded keeps_def, rule_format, OF s] ms
  have s': "I s'" and q: "\<And>x. y = Inr x \<Longrightarrow> Q x"
    by simp_all
  show "I (snd (bind_io m f s)) \<and> (\<forall>x. fst (bind_io m f s) = Inr x \<longrightarrow> R x)"
  proof (cases y)
    case (Inl err)
    with ms s' show ?thesis by (simp add: bind_io_def)
  next
    case (Inr x)
    from assms(2)[OF q[OF Inr], unfolded keeps_def, rule_format, OF s'] have
      "I (snd (f x s')) \<and> (\<forall>z. fst (f x s') = Inr z \<longrightarrow> R z)" .
    with ms Inr show ?thesis by (simp add: bind_io_def)
  qed
qed

lemma keeps_return: "Q x \<Longrightarrow> keeps I (return_io x) Q"
  by (simp add: keeps_def return_io_def)

lemma keeps_return_any: "keeps I (return_io x) (\<lambda>_. True)"
  by (simp add: keeps_def return_io_def)

lemma keeps_raise: "keeps I (raise_io err) Q"
  by (simp add: keeps_def raise_io_def)

lemma keeps_get_env:
  "keeps mask_inv (get_env f) (\<lambda>x. \<exists>e. mask_ok (last_mask e) \<and> x = f e)"
  by (auto simp: keeps_def get_env_def mask_inv_def)

lemma keeps_modify_env:
  "(\<And>e. last_mask (f e) = last_mask e) \<Longrightarrow> keeps mask_inv (modify_env f) (\<lambda>_. True)"
  by (simp add: keeps_def modify_env_def mask_inv_def)

lemma keeps_close: "keeps mask_inv close (\<lambda>_. True)"
  by (auto simp: keeps_def mask_inv_def close_eq)

lemma keeps_write_json: "keeps mask_inv (write_json c) (\<lambda>_. True)"
  by (auto simp: keeps_def mask_inv_def write_json_def split: option.splits)

lemma keeps_read_json: "keeps mask_inv read_json (\<lambda>_. True)"
  by (auto simp: keeps_def mask_inv_def read_json_def Let_def
           split: option.splits list.splits got.splits)

lemma keeps_start: "keeps mask_inv (start sd) (\<lambda>_. True)"
  by (auto simp: keeps_def mask_inv_def start_def write_json_def Let_def
           split: launch_outcome.splits)

lemma mask_ok_fix_shape:
  "length (data a) = np_size a \<Longrightarrow> mask_ok (fix_shape ACTION_DIM z a)"
  by (simp add: mask_ok_def fix_shape_shape fix_shape_length)

lemma keeps_decode_step: "keeps mask_inv (decode_step L msg) (\<lambda>_. True)"
  by (cases msg)
     (auto simp: keeps_def mask_inv_def decode_step_def io_defs Let_def
                 mask_ok_fix_shape asarray_wf
           split: option.splits)

lemma keeps_reset: "keeps mask_inv (reset L seed) (\<lambda>(obs, info). mask_ok info)"
  unfolding reset_def
  by (intro keeps_bind[OF keeps_close] keeps_bind[OF keeps_modify_env]
            keeps_bind[OF keeps_get_env] keeps_bind[OF keeps_start]
            keeps_bind[OF keeps_read_json] keeps_bind[OF keeps_decode_step])
     (auto intro!: keeps_bind[OF keeps_close] keeps_bind[OF keeps_modify_env]
            keeps_bind[OF keeps_get_env] keeps_bind[OF keeps_start]
            keeps_bind[OF keeps_read_json] keeps_bind[OF keeps_decode_step] keeps_return)

lemma keeps_step:
  "keeps mask_inv (step L action) (\<lambda>(obs, r, t, tr, info). mask_ok info)"
  unfolding step_def
  by (auto intro!: keeps_bind[OF keeps_close] keeps_bind[OF keeps_write_json]
            keeps_bind[OF keeps_get_env] keeps_bind[OF keeps_return_any]
            keeps_bind[OF keeps_read_json] keeps_bind[OF keeps_decode_step]
            keeps_return keeps_raise)

lemma keeps_get_snapshot: "keeps mask_inv get_snapshot (\<lambda>_. True)"
  unfolding get_snapshot_def
  by (auto intro!: keeps_bind[OF keeps_write_json] keeps_bind[OF keeps_get_env]
            keeps_bind[OF keeps_read_json] keeps_return keeps_raise
           split: json.splits option.splits)

text \<open>
  C10. After \<open>__init__\<close> the stored mask has \<open>ACTION_DIM\<close> elements, all false, and
  that is what \<open>action_masks\<close> returns. If the stored mask has shape \<open>(ACTION_DIM,)\<close>
  and \<open>ACTION_DIM\<close> elements, then so has the mask \<open>action_masks\<close> returns, and so has
  the stored mask after \<open>reset\<close>, \<open>step\<close>, \<open>get_snapshot\<close> and \<open>close\<close>, whether they
  return or raise; and the \<open>action_mask\<close> in the info returned by \<open>reset\<close> and \<open>step\<close>
  has that shape and length too.
\<close>

theorem C10_mask_invariant:
  "mask_ok (last_mask (init_env md sm st sd))
   \<and> action_masks (init_env md sm st sd) = zeros ACTION_DIM False
   \<and> data (action_masks (init_env md sm st sd)) = replicate ACTION_DIM False
   \<and> (mask_ok (last_mask e) \<longrightarrow>
        mask_ok (action_masks e)
      \<and> mask_ok (last_mask (fst (snd (reset L seed (e, w)))))
      \<and> mask_ok (last_mask (fst (snd (step L action (e, w)))))
      \<and> mask_ok (last_mask (fst (snd (get_snapshot (e, w)))))
      \<and> mask_ok (last_mask (fst (snd (close (e, w)))))
      \<and> (\<forall>obs info. fst (reset L seed (e, w)) = Inr (obs, info) \<longrightarrow> mask_ok info)
      \<and> (\<forall>obs r t tr info. fst (step L action (e, w)) = Inr (obs, r, t, tr, info)
            \<longrightarrow> mask_ok info))"
proof -
  have init: "mask_ok (last_mask (init_env md sm st sd))
      \<and> action_masks (init_env md sm st sd) = zeros ACTION_DIM False
      \<and> data (action_masks (init_env md sm st sd)) = replicate ACTION_DIM False"
    by (simp add: init_env_def action_masks_def mask_ok_def zeros_def)
  have step: "mask_ok (last_mask e) \<longrightarrow>
        mask_ok (action_masks e)
      \<and> mask_ok (last_mask (fst (snd (reset L seed (e, w)))))
      \<and> mask_ok (last_mask (fst (snd (step L action (e, w)))))
      \<and> mask_ok (last_mask (fst (snd (get_snapshot (e, w)))))
      \<and> mask_ok (last_mask (fst (snd (close (e, w)))))
      \<and> (\<forall>obs info. fst (reset L seed (e, w)) = Inr (obs, info) \<longrightarrow> mask_ok info)
      \<and> (\<forall>obs r t tr info. fst (step L action (e, w)) = Inr (obs, r, t, tr, info)
            \<longrightarrow> mask_ok info)"
  proof
    assume ok: "mask_ok (last_mask e)"
    then have I: "mask_inv (e, w)" by (simp add: mask_inv_def)
    note r = keeps_reset[of L seed, unfolded keeps_def, rule_format, OF I]
    note s = keeps_step[of L action, unfolded keeps_def, rule_format, OF I]
    note g = keeps_get_snapshot[unfolded keeps_def, rule_format, OF I]
    note c = keeps_close[unfolded keeps_def, rule_format, OF I]
    have 1: "mask_ok (action_masks e)" using ok by (simp add: action_masks_def)
    have 2: "mask_ok (last_mask (fst (snd (reset L seed (e, w)))))"
      using r by (simp add: mask_inv_def)
    have 3: "mask_ok (last_mask (fst (snd (step L action (e, w)))))"
      using s by (simp add: mask_inv_def)
    have 4: "mask_ok (last_mask (fst (snd (get_snapshot (e, w)))))"
      using g by (simp add: mask_inv_def)
    have 5: "mask_ok (last_mask (fst (snd (close (e, w)))))"
      using c by (simp add: mask_inv_def)
    have 6: "\<forall>obs info. fst (reset L seed (e, w)) = Inr (obs, info) \<longrightarrow> mask_ok info"
      using r by auto
    have 7: "\<forall>obs r t tr info. fst (step L action (e, w)) = Inr (obs, r, t, tr, info)
            \<longrightarrow> mask_ok info"
      using s by auto
    from 1 2 3 4 5 6 7 show "mask_ok (action_masks e)
      \<and> mask_ok (last_mask (fst (snd (reset L seed (e, w)))))
      \<and> mask_ok (last_mask (fst (snd (step L action (e, w)))))
      \<and> mask_ok (last_mask (fst (snd (get_snapshot (e, w)))))
      \<and> mask_ok (last_mask (fst (snd (close (e, w)))))
      \<and> (\<forall>obs info. fst (reset L seed (e, w)) = Inr (obs, info) \<longrightarrow> mask_ok info)
      \<and> (\<forall>obs r t tr info. fst (step L action (e, w)) = Inr (obs, r, t, tr, info)
            \<longrightarrow> mask_ok info)" by blast
  qed
  from init step show ?thesis by blast
qed

theorem C10_mask_invariant_witness:
  "mask_ok (last_mask running_env)
   \<and> fst (reset demo_coercions None (running_env, demo_world [line_of ''a'' demo_kv]))
       = Inr (\<lparr>shape = [102], data = [1, 2, 3] @ replicate 99 0\<rparr>,
              \<lparr>shape = [60], data = [True, False] @ replicate 58 False\<rparr>)
   \<and> mask_ok \<lparr>shape = [60], data = [True, False] @ replicate 58 False\<rparr>
   \<and> fst (step demo_coercions 5 (running_env, demo_world [line_of ''a'' demo_kv]))
       = Inr (\<lparr>shape = [102], data = [1, 2, 3] @ replicate 99 0\<rparr>, 0, False, False,
              \<lparr>shape = [60], data = [True, False] @ replicate 58 False\<rparr>)
   \<and> mask_ok (last_mask (fst (snd
        (step demo_coercions 5 (running_env, demo_world [line_of ''a'' demo_kv])))))
   \<and> mask_ok (last_mask (fst (snd
        (get_snapshot (running_env, demo_world [line_of ''a'' demo_kv])))))
   \<and> mask_ok (last_mask (fst (snd
        (close (running_env, demo_world [line_of ''a'' demo_kv])))))"
proof -
  let ?w = "demo_world [line_of ''a'' demo_kv]"
  have h: "mask_ok (last_mask running_env)"
    by (simp add: running_env_def demo_env_def init_env_def mask_ok_def zeros_def)
  have r: "fst (reset demo_coercions None (running_env, ?w))
       = Inr (\<lparr>shape = [102], data = [1, 2, 3] @ replicate 99 0\<rparr>,
              \<lparr>shape = [60], data = [True, False] @ replicate 58 False\<rparr>)" by code_simp
  have s: "fst (step demo_coercions 5 (running_env, ?w))
       = Inr (\<lparr>shape = [102], data = [1, 2, 3] @ replicate 99 0\<rparr>, 0, False, False,
              \<lparr>shape = [60], data = [True, False] @ replicate 58 False\<rparr>)" by code_simp
  note t = C10_mask_invariant[of _ _ _ _ running_env demo_coercions None ?w 5]
  show ?thesis using t h r s by simp
qed

end
